theory Spec2Isabelle
  imports Complex_Main
begin

section \<open>JavaScript values and the built-ins the validators call\<close>

text \<open>
  The validators work on parsed JSON documents. A value is one of the six JSON kinds; an
  object is the list of its own properties in insertion order (one entry per key, as a
  JavaScript object has), a number is a finite number (every finite double is a
  rational). Members inherited from
  \<^verbatim>\<open>Object.prototype\<close> and \<^verbatim>\<open>Array.prototype\<close> are not part of the model, and
  neither are \<^verbatim>\<open>undefined\<close>, \<^verbatim>\<open>NaN\<close> and the infinities: a JSON document has none.
\<close>

datatype json =
    JNull
  | JBool bool
  | JNum rat
  | JStr string
  | JArr "json list"
  | JObj "(string \<times> json) list"

text \<open>
  One failure as Ajv reports it (\<^verbatim>\<open>ErrorObject\<close>): \<^verbatim>\<open>message\<close> is optional in
  Ajv's type.
\<close>

record ErrorObject =
  instancePath :: string
  message :: "string option"
  params :: json

text \<open>
  What a \<^verbatim>\<open>throw\<close> of the source, or of the runtime, carries: an \<^verbatim>\<open>Error\<close> with its
  message, a \<^verbatim>\<open>TypeError\<close> of the runtime, or the \<^verbatim>\<open>SchemaValidationError\<close> of
  \<^verbatim>\<open>schemaValidator.ts\<close> with its two public fields \<^verbatim>\<open>errors\<close> and \<^verbatim>\<open>data\<close> (its
  message text is assembled from these two and is not modelled).
\<close>

datatype js_error =
    Error string
  | TypeError
  | SchemaValidationError "ErrorObject list" json

subsection \<open>Strings\<close>

fun join :: "string \<Rightarrow> string list \<Rightarrow> string" where
  "join sep [] = []"
| "join sep [x] = x"
| "join sep (x # y # ys) = x @ sep @ join sep (y # ys)"

text \<open>\<^verbatim>\<open>s.split('/')\<close>: the segments between the separators, never an empty list.\<close>

fun split :: "char \<Rightarrow> string \<Rightarrow> string list" where
  "split sep [] = [[]]"
| "split sep (c # cs) =
     (if c = sep then [] # split sep cs
      else (case split sep cs of
              [] \<Rightarrow> [[c]]
            | seg # segs \<Rightarrow> (c # seg) # segs))"

text \<open>
  \<^verbatim>\<open>toLowerCase\<close> and \<^verbatim>\<open>toUpperCase\<close> on the ASCII letters; every other byte is
  left as it is.
\<close>

definition lower_char :: "char \<Rightarrow> char" where
  "lower_char c =
     (case map_of (zip ''ABCDEFGHIJKLMNOPQRSTUVWXYZ'' ''abcdefghijklmnopqrstuvwxyz'') c of
        None \<Rightarrow> c
      | Some l \<Rightarrow> l)"

definition upper_char :: "char \<Rightarrow> char" where
  "upper_char c =
     (case map_of (zip ''abcdefghijklmnopqrstuvwxyz'' ''ABCDEFGHIJKLMNOPQRSTUVWXYZ'') c of
        None \<Rightarrow> c
      | Some u \<Rightarrow> u)"

definition toLowerCase :: "string \<Rightarrow> string" where
  "toLowerCase s = map lower_char s"

definition toUpperCase :: "string \<Rightarrow> string" where
  "toUpperCase s = map upper_char s"

subsection \<open>Numbers\<close>

definition digit :: "nat \<Rightarrow> char" where
  "digit d = ''0123456789'' ! d"

fun show_nat :: "nat \<Rightarrow> string" where
  "show_nat n = (if n < 10 then [digit n] else show_nat (n div 10) @ [digit (n mod 10)])"

declare show_nat.simps [simp del]

definition Number_isInteger :: "rat \<Rightarrow> bool" where
  "Number_isInteger q = (of_int \<lfloor>q\<rfloor> = q)"

text \<open>
  \<^verbatim>\<open>Number.prototype.toString\<close>. A safe integer prints as its decimal digits. The
  shortest round-trip digits of any other double are the engine's business: they are the
  parameter \<open>nts\<close>.
\<close>

definition numberToString :: "(rat \<Rightarrow> string) \<Rightarrow> rat \<Rightarrow> string" where
  "numberToString nts q =
     (if Number_isInteger q \<and> \<bar>q\<bar> \<le> 9007199254740991
      then (if q < 0 then ''-'' @ show_nat (nat (- \<lfloor>q\<rfloor>)) else show_nat (nat \<lfloor>q\<rfloor>))
      else nts q)"

subsection \<open>Coercion to string, serialisation, membership\<close>

text \<open>
  \<^verbatim>\<open>String(v)\<close>, which a template literal applies to \<^verbatim>\<open>${v}\<close>. An array joins its
  elements with a comma, \<^verbatim>\<open>null\<close> elements as the empty string; \<open>joinElement\<close> is that
  element rule of \<^verbatim>\<open>Array.prototype.join\<close>.
\<close>

fun toString :: "(rat \<Rightarrow> string) \<Rightarrow> json \<Rightarrow> string" where
  "toString nts JNull = ''null''"
| "toString nts (JBool b) = (if b then ''true'' else ''false'')"
| "toString nts (JNum q) = numberToString nts q"
| "toString nts (JStr s) = s"
| "toString nts (JArr vs) =
     join '','' (map (\<lambda>v. if v = JNull then [] else toString nts v) vs)"
| "toString nts (JObj kvs) = ''[object Object]''"

definition joinElement :: "(rat \<Rightarrow> string) \<Rightarrow> json \<Rightarrow> string" where
  "joinElement nts v = (if v = JNull then [] else toString nts v)"

definition array_join :: "(rat \<Rightarrow> string) \<Rightarrow> string \<Rightarrow> json list \<Rightarrow> string" where
  "array_join nts sep vs = join sep (map (joinElement nts) vs)"

text \<open>\<^verbatim>\<open>JSON.stringify\<close> without indentation.\<close>

definition hex_digit :: "nat \<Rightarrow> char" where
  "hex_digit d = ''0123456789abcdef'' ! d"

definition escape_char :: "char \<Rightarrow> string" where
  "escape_char c =
     (if c = CHR ''\"'' then [CHR 0x5C, CHR ''\"'']
      else if c = CHR 0x5C then [CHR 0x5C, CHR 0x5C]
      else if c = CHR 0x08 then [CHR 0x5C, CHR ''b'']
      else if c = CHR 0x0C then [CHR 0x5C, CHR ''f'']
      else if c = CHR 0x0A then [CHR 0x5C, CHR ''n'']
      else if c = CHR 0x0D then [CHR 0x5C, CHR ''r'']
      else if c = CHR 0x09 then [CHR 0x5C, CHR ''t'']
      else if (of_char c :: nat) < 32
      then [CHR 0x5C, CHR ''u'', CHR ''0'', CHR ''0'',
            hex_digit ((of_char c :: nat) div 16), hex_digit ((of_char c :: nat) mod 16)]
      else [c])"

definition quote :: "string \<Rightarrow> string" where
  "quote s = [CHR ''\"''] @ concat (map escape_char s) @ [CHR ''\"'']"

fun JSON_stringify :: "(rat \<Rightarrow> string) \<Rightarrow> json \<Rightarrow> string" where
  "JSON_stringify nts JNull = ''null''"
| "JSON_stringify nts (JBool b) = (if b then ''true'' else ''false'')"
| "JSON_stringify nts (JNum q) = numberToString nts q"
| "JSON_stringify nts (JStr s) = quote s"
| "JSON_stringify nts (JArr vs) = ''['' @ join '','' (map (JSON_stringify nts) vs) @ '']''"
| "JSON_stringify nts (JObj kvs) =
     ''{'' @ join '','' (map (\<lambda>kv. quote (fst kv) @ '':'' @ JSON_stringify nts (snd kv)) kvs) @ ''}''"

text \<open>
  \<^verbatim>\<open>Array.prototype.includes\<close> compares with SameValueZero: primitives by value,
  objects and arrays by reference. The entries of a schema's \<^verbatim>\<open>enum\<close> and the values
  of a response are parsed from different documents, so an object or an array is never
  the same reference as an entry.
\<close>

fun sameValueZero :: "json \<Rightarrow> json \<Rightarrow> bool" where
  "sameValueZero JNull JNull = True"
| "sameValueZero (JBool a) (JBool b) = (a = b)"
| "sameValueZero (JNum a) (JNum b) = (a = b)"
| "sameValueZero (JStr a) (JStr b) = (a = b)"
| "sameValueZero _ _ = False"

definition array_includes :: "json list \<Rightarrow> json \<Rightarrow> bool" where
  "array_includes xs v = list_ex (\<lambda>x. sameValueZero x v) xs"

subsection \<open>Property lookup\<close>

text \<open>
  \<^verbatim>\<open>k in v\<close> and \<^verbatim>\<open>v[k]\<close> in one step: \<open>Inl TypeError\<close> when \<open>v\<close> is not an
  object (the \<^verbatim>\<open>in\<close> operator throws on a primitive), \<open>Inr None\<close> when \<open>v\<close> has no
  property \<open>k\<close>, \<open>Inr (Some x)\<close> when it has and \<open>v[k]\<close> is \<open>x\<close>. The own properties
  of an array are its indices and \<^verbatim>\<open>length\<close>.
\<close>

fun lookup :: "json \<Rightarrow> string \<Rightarrow> js_error + json option" where
  "lookup (JObj kvs) k = Inr (map_of kvs k)"
| "lookup (JArr vs) k =
     (if k = ''length'' then Inr (Some (JNum (of_nat (length vs))))
      else (case find (\<lambda>i. show_nat i = k) [0..<length vs] of
              None \<Rightarrow> Inr None
            | Some i \<Rightarrow> Inr (Some (vs ! i))))"
| "lookup _ k = Inl TypeError"

definition js_in :: "string \<Rightarrow> json \<Rightarrow> js_error + bool" where
  "js_in k v = (case lookup v k of Inl e \<Rightarrow> Inl e | Inr r \<Rightarrow> Inr (r \<noteq> None))"

lemma size_map_of:
  "map_of kvs k = Some x \<Longrightarrow> size x < size_list (size_prod (\<lambda>x. 0) size) kvs"
  by (induction kvs) (auto split: if_splits)

lemma size_member: "x \<in> set vs \<Longrightarrow> size x < Suc (size_list size vs)"
  by (induction vs) auto

lemma size_lookup: "lookup v k = Inr (Some x) \<Longrightarrow> size x < size v"
proof (cases v)
  case (JArr vs)
  assume l: "lookup v k = Inr (Some x)"
  show ?thesis
  proof (cases "k = ''length''")
    case True
    with l JArr show ?thesis by auto
  next
    case False
    with l JArr obtain i where "find (\<lambda>i. show_nat i = k) [0..<length vs] = Some i" "x = vs ! i"
      by (auto split: option.splits)
    then have "i < length vs" "x = vs ! i"
      by (auto simp: find_Some_iff)
    then have "x \<in> set vs" by simp
    with JArr show ?thesis using size_member by fastforce
  qed
qed (auto dest: size_map_of)

section \<open>The contract validator (\<^verbatim>\<open>src/utils/contractValidator.ts\<close>)\<close>

subsection \<open>Documents\<close>

text \<open>
  A schema document is the tree of the keys the validator reads: \<^verbatim>\<open>$ref\<close>,
  \<^verbatim>\<open>type\<close>, \<^verbatim>\<open>required\<close>, \<^verbatim>\<open>properties\<close> (in insertion order, as
  \<^verbatim>\<open>Object.entries\<close> lists them), \<^verbatim>\<open>enum\<close> and \<^verbatim>\<open>items\<close>. A key that is absent is
  \<open>None\<close>. The source types the schemas it reads as \<^verbatim>\<open>any\<close>; the model gives them
  the shape these keys have in a schema document. The OpenAPI document is the interface
  \<^verbatim>\<open>OpenAPISpec\<close>; \<^verbatim>\<open>definitions\<close> is optional there, and \<^verbatim>\<open>paths\<close> and
  \<^verbatim>\<open>definitions\<close> are only ever looked up by key.
\<close>

datatype Schema = Schema
  (ref: "string option")
  (type: "string option")
  (required: "string list option")
  (properties: "(string \<times> Schema) list option")
  (enum_values: "json list option")
  (items: "Schema option")

record Info =
  title :: string
  version :: string

record ResponseDoc =
  description :: string
  responseSchema :: "json option"

record Operation =
  responses :: "string \<rightharpoonup> ResponseDoc"

record OpenAPISpec =
  swagger :: "string option"
  openapi :: "string option"
  info :: Info
  paths :: "string \<rightharpoonup> (string \<rightharpoonup> Operation)"
  definitions :: "(string \<rightharpoonup> Schema) option"

record CheckResult =
  valid :: bool
  errors :: "string list"

record ValidationResult = CheckResult +
  warnings :: "string list"

record Options =
  strictRequired :: "bool option"

subsection \<open>Operations\<close>

text \<open>
  A string that is absent or empty is falsy; \<open>str_value\<close> reads an optional string and
  \<open>truthy\<close> is the test \<^verbatim>\<open>if (s)\<close>. \<open>squote s\<close> is \<^verbatim>\<open>'${s}'\<close>.
\<close>

definition squote :: "string \<Rightarrow> string" where
  "squote s = [CHR 0x27] @ s @ [CHR 0x27]"

definition str_value :: "string option \<Rightarrow> string" where
  "str_value x = (case x of None \<Rightarrow> [] | Some s \<Rightarrow> s)"

definition truthy :: "string option \<Rightarrow> bool" where
  "truthy x = (str_value x \<noteq> [])"

definition typeof :: "json \<Rightarrow> string" where
  "typeof v =
     (case v of
        JNull \<Rightarrow> ''object''
      | JBool b \<Rightarrow> ''boolean''
      | JNum q \<Rightarrow> ''number''
      | JStr s \<Rightarrow> ''string''
      | JArr vs \<Rightarrow> ''object''
      | JObj kvs \<Rightarrow> ''object'')"

definition Array_isArray :: "json \<Rightarrow> bool" where
  "Array_isArray v = (case v of JArr vs \<Rightarrow> True | _ \<Rightarrow> False)"

definition getJsonType :: "json \<Rightarrow> string" where
  "getJsonType v =
     (if v = JNull then ''null''
      else if Array_isArray v then ''array''
      else if typeof v = ''number''
      then (case v of JNum q \<Rightarrow> if Number_isInteger q then ''integer'' else ''number'' | _ \<Rightarrow> typeof v)
      else typeof v)"

definition getSchema :: "OpenAPISpec \<Rightarrow> string \<Rightarrow> js_error + Schema option" where
  "getSchema spec schemaName =
     (case definitions spec of
        None \<Rightarrow> Inl (Error ''No definitions found in OpenAPI spec'')
      | Some defs \<Rightarrow> Inr (defs schemaName))"

definition validateEndpointExists ::
  "OpenAPISpec \<Rightarrow> string \<Rightarrow> string option \<Rightarrow> ValidationResult" where
  "validateEndpointExists spec path method_arg =
     (let method = (case method_arg of None \<Rightarrow> ''get'' | Some m \<Rightarrow> m) in
      case paths spec path of
        None \<Rightarrow>
          \<lparr>valid = False,
           errors = [''Endpoint '' @ squote path @ '' not found in OpenAPI spec''],
           warnings = []\<rparr>
      | Some entry \<Rightarrow>
          (case entry (toLowerCase method) of
             None \<Rightarrow>
               \<lparr>valid = False,
                errors = [''Method '' @ squote (toUpperCase method) @
                          '' not found for endpoint '' @ squote path],
                warnings = []\<rparr>
           | Some operation \<Rightarrow> \<lparr>valid = True, errors = [], warnings = []\<rparr>))"

definition validateSchemaExists :: "OpenAPISpec \<Rightarrow> string \<Rightarrow> ValidationResult" where
  "validateSchemaExists spec schemaName =
     (case definitions spec of
        None \<Rightarrow>
          \<lparr>valid = False,
           errors = [''Schema '' @ squote schemaName @ '' not found in OpenAPI spec definitions''],
           warnings = []\<rparr>
      | Some defs \<Rightarrow>
          (case defs schemaName of
             None \<Rightarrow>
               \<lparr>valid = False,
                errors = [''Schema '' @ squote schemaName @
                          '' not found in OpenAPI spec definitions''],
                warnings = []\<rparr>
           | Some s \<Rightarrow> \<lparr>valid = True, errors = [], warnings = []\<rparr>))"

text \<open>
  The required-field pass of \<^verbatim>\<open>validateResponseAgainstSchema\<close>: the loop
  \<^verbatim>\<open>for (const requiredField of schema.required)\<close>.
\<close>

fun requiredLoop ::
  "bool \<Rightarrow> json \<Rightarrow> string list \<Rightarrow> string list \<times> string list \<Rightarrow>
   js_error + string list \<times> string list" where
  "requiredLoop strict response [] (errs, warns) = Inr (errs, warns)"
| "requiredLoop strict response (requiredField # rest) (errs, warns) =
     (case js_in requiredField response of
        Inl e \<Rightarrow> Inl e
      | Inr present \<Rightarrow>
          if \<not> present
          then (let msg = ''Required field '' @ squote requiredField @ '' is missing from response''
                in if strict
                   then requiredLoop strict response rest (errs @ [msg], warns)
                   else requiredLoop strict response rest (errs, warns @ [msg]))
          else requiredLoop strict response rest (errs, warns))"

definition refSchemaName :: "string \<Rightarrow> string" where
  "refSchemaName r = last (split CHR ''/'' r)"

text \<open>
  \<^verbatim>\<open>validateResponseAgainstSchema\<close> and \<^verbatim>\<open>validateFieldType\<close> call each other; the
  loop over \<^verbatim>\<open>Object.entries(schema.properties)\<close> is \<open>propertiesLoop\<close> and the
  \<^verbatim>\<open>forEach\<close> over the elements of an array is \<open>itemsLoop\<close>. The lists \<open>errs\<close> and
  \<open>warns\<close> are the arrays \<^verbatim>\<open>errors\<close> and \<^verbatim>\<open>warnings\<close> the source pushes to. A
  \<^verbatim>\<open>throw\<close> is the value \<open>Inl\<close>; it ends every enclosing loop and call, since the
  source catches nothing.
\<close>

function (sequential)
  validateResponseAgainstSchema ::
    "(rat \<Rightarrow> string) \<Rightarrow> OpenAPISpec \<Rightarrow> json \<Rightarrow> string \<Rightarrow> Options \<Rightarrow> js_error + ValidationResult"
and propertiesLoop ::
    "(rat \<Rightarrow> string) \<Rightarrow> OpenAPISpec \<Rightarrow> json \<Rightarrow> (string \<times> Schema) list \<Rightarrow>
     string list \<times> string list \<Rightarrow> js_error + string list \<times> string list"
and validateFieldType ::
    "(rat \<Rightarrow> string) \<Rightarrow> OpenAPISpec \<Rightarrow> string \<Rightarrow> json \<Rightarrow> Schema \<Rightarrow> js_error + ValidationResult"
and itemsLoop ::
    "(rat \<Rightarrow> string) \<Rightarrow> OpenAPISpec \<Rightarrow> string \<Rightarrow> Schema \<Rightarrow> nat \<Rightarrow> json list \<Rightarrow>
     string list \<Rightarrow> js_error + string list"
where
  "validateResponseAgainstSchema nts spec response schemaName options =
     (let strict = (strictRequired options \<noteq> Some False) in
      case getSchema spec schemaName of
        Inl e \<Rightarrow> Inl e
      | Inr None \<Rightarrow>
          Inr \<lparr>valid = False, errors = [''Schema '' @ squote schemaName @ '' not found''],
               warnings = []\<rparr>
      | Inr (Some schema) \<Rightarrow>
          (case (case required schema of
                   None \<Rightarrow> Inr ([], [])
                 | Some req \<Rightarrow> requiredLoop strict response req ([], [])) of
             Inl e \<Rightarrow> Inl e
           | Inr acc \<Rightarrow>
               (case (case properties schema of
                        None \<Rightarrow> Inr acc
                      | Some props \<Rightarrow> propertiesLoop nts spec response props acc) of
                  Inl e \<Rightarrow> Inl e
                | Inr (errs, warns) \<Rightarrow>
                    Inr \<lparr>valid = (length errs = 0), errors = errs, warnings = warns\<rparr>)))"
| "propertiesLoop nts spec response [] acc = Inr acc"
| "propertiesLoop nts spec response ((fieldName, fieldSchema) # rest) (errs, warns) =
     (case lookup response fieldName of
        Inl e \<Rightarrow> Inl e
      | Inr None \<Rightarrow> propertiesLoop nts spec response rest (errs, warns)
      | Inr (Some fieldValue) \<Rightarrow>
          (case validateFieldType nts spec fieldName fieldValue fieldSchema of
             Inl e \<Rightarrow> Inl e
           | Inr validationType \<Rightarrow>
               propertiesLoop nts spec response rest
                 (errs @ errors validationType,
                  warns @ warnings validationType)))"
| "validateFieldType nts spec fieldName v fieldSchema =
     (if truthy (ref fieldSchema) \<and> typeof v = ''object'' \<and> v \<noteq> JNull
      then validateResponseAgainstSchema nts spec v (refSchemaName (str_value (ref fieldSchema)))
             \<lparr>strictRequired = None\<rparr>
      else if truthy (type fieldSchema)
      then (let expectedType = str_value (type fieldSchema);
                actualType = getJsonType v;
                errors1 =
                  (if expectedType \<noteq> actualType
                   then [''Field '' @ squote fieldName @ '' has type '' @ squote actualType @
                         '' but schema expects '' @ squote expectedType @
                         '' (value: '' @ JSON_stringify nts v @ '')'']
                   else []);
                errors2 =
                  (case enum_values fieldSchema of
                     None \<Rightarrow> errors1
                   | Some allowed \<Rightarrow>
                       if \<not> array_includes allowed v
                       then errors1 @
                            [''Field '' @ squote fieldName @ '' has value '' @ squote (toString nts v) @
                             '' which is not in allowed enum values: ['' @
                             array_join nts '', '' allowed @ '']'']
                       else errors1)
            in case (case items fieldSchema of
                       None \<Rightarrow> Inr errors2
                     | Some itemsSchema \<Rightarrow>
                         (case v of
                            JArr elems \<Rightarrow>
                              if expectedType = ''array''
                              then itemsLoop nts spec fieldName itemsSchema 0 elems errors2
                              else Inr errors2
                          | _ \<Rightarrow> Inr errors2)) of
                 Inl e \<Rightarrow> Inl e
               | Inr errors3 \<Rightarrow>
                   Inr \<lparr>valid = (length errors3 = 0), errors = errors3, warnings = []\<rparr>)
      else Inr \<lparr>valid = True, errors = [], warnings = []\<rparr>)"
| "itemsLoop nts spec fieldName itemsSchema index [] errs = Inr errs"
| "itemsLoop nts spec fieldName itemsSchema index (item # rest) errs =
     (if truthy (ref itemsSchema)
      then (case validateResponseAgainstSchema nts spec item
                   (refSchemaName (str_value (ref itemsSchema))) \<lparr>strictRequired = None\<rparr> of
              Inl e \<Rightarrow> Inl e
            | Inr itemValidation \<Rightarrow>
                itemsLoop nts spec fieldName itemsSchema (index + 1) rest
                  (errs @ map (\<lambda>err. fieldName @ ''['' @ show_nat index @ '']: '' @ err)
                              (errors itemValidation)))
      else if truthy (type itemsSchema)
      then (let itemType = getJsonType item
            in if itemType \<noteq> str_value (type itemsSchema)
               then itemsLoop nts spec fieldName itemsSchema (index + 1) rest
                      (errs @ [fieldName @ ''['' @ show_nat index @ ''] has type '' @
                                 squote itemType @ '' but schema expects '' @
                                 squote (str_value (type itemsSchema))])
               else itemsLoop nts spec fieldName itemsSchema (index + 1) rest errs)
      else itemsLoop nts spec fieldName itemsSchema (index + 1) rest errs)"
  by pat_completeness auto

termination
  apply (relation "measures
      [\<lambda>x. case x of
             Inl (Inl (nts, spec, response, schemaName, options)) \<Rightarrow> 3 * size response + 1
           | Inl (Inr (nts, spec, response, props, acc)) \<Rightarrow> 3 * size response
           | Inr (Inl (nts, spec, fieldName, v, fieldSchema)) \<Rightarrow> 3 * size v + 2
           | Inr (Inr (nts, spec, fieldName, itemsSchema, index, elems, errs)) \<Rightarrow> 3 * size (JArr elems),
       \<lambda>x. case x of
             Inl (Inr (nts, spec, response, props, acc)) \<Rightarrow> length props
           | _ \<Rightarrow> 0]")
  apply (auto dest: size_lookup)
  done

section \<open>The schema validators (\<^verbatim>\<open>src/utils/validators.ts\<close>, \<^verbatim>\<open>src/utils/schemaValidator.ts\<close>)\<close>

text \<open>
  Both files define a class \<^verbatim>\<open>SchemaValidator\<close> with a static \<^verbatim>\<open>validate\<close>, over
  the library Ajv. Ajv is not part of the repository, so an instance is a parameter:
  \<open>ajv schema\<close> is \<^verbatim>\<open>ajv.compile(schema)\<close>, which throws on a schema it refuses and
  otherwise gives the compiled function; that function, run on a value, gives the
  boolean it returns and the \<^verbatim>\<open>errors\<close> it leaves on itself (\<open>None\<close> for
  \<^verbatim>\<open>null\<close>).
\<close>

type_synonym ajv = "json \<Rightarrow> js_error + (json \<Rightarrow> bool \<times> ErrorObject list option)"

text \<open>\<^verbatim>\<open>${err.message}\<close>: an absent message prints as \<^verbatim>\<open>undefined\<close>.\<close>

definition template_message :: "string option \<Rightarrow> string" where
  "template_message m = (case m of None \<Rightarrow> ''undefined'' | Some s \<Rightarrow> s)"

text \<open>\<^verbatim>\<open>SchemaValidator.validate(data, schema)\<close> of \<^verbatim>\<open>validators.ts\<close>.\<close>

definition validators_SchemaValidator_validate ::
  "ajv \<Rightarrow> json \<Rightarrow> json \<Rightarrow> js_error + CheckResult" where
  "validators_SchemaValidator_validate ajv payload schema_doc =
     (case ajv schema_doc of
        Inl e \<Rightarrow> Inl e
      | Inr validate \<Rightarrow>
          (case validate payload of
             (ok, None) \<Rightarrow> Inr \<lparr>valid = True, errors = []\<rparr>
           | (ok, Some errs) \<Rightarrow>
               if ok = False
               then Inr \<lparr>valid = False,
                         errors = map (\<lambda>err. instancePath err @ '' '' @ template_message (message err))
                                    errs\<rparr>
               else Inr \<lparr>valid = True, errors = []\<rparr>))"

text \<open>
  \<^verbatim>\<open>SchemaValidator.validateSchema(schema, data)\<close> and
  \<^verbatim>\<open>SchemaValidator.validate(schema, data)\<close> of \<^verbatim>\<open>schemaValidator.ts\<close>. The result of
  \<^verbatim>\<open>validate\<close> has the optional field \<^verbatim>\<open>data\<close>.
\<close>

record SchemaResult = CheckResult +
  data :: "json option"

definition SchemaValidator_validateSchema :: "ajv \<Rightarrow> json \<Rightarrow> json \<Rightarrow> js_error + json" where
  "SchemaValidator_validateSchema ajv schema_doc payload =
     (case ajv schema_doc of
        Inl e \<Rightarrow> Inl e
      | Inr validate \<Rightarrow>
          (case validate payload of
             (ok, None) \<Rightarrow> Inr payload
           | (ok, Some errs) \<Rightarrow>
               if \<not> ok then Inl (SchemaValidationError errs payload) else Inr payload))"

definition SchemaValidator_validate :: "ajv \<Rightarrow> json \<Rightarrow> json \<Rightarrow> js_error + SchemaResult" where
  "SchemaValidator_validate ajv schema_doc payload =
     (case SchemaValidator_validateSchema ajv schema_doc payload of
        Inr validatedData \<Rightarrow> Inr \<lparr>valid = True, errors = [], data = Some validatedData\<rparr>
      | Inl (SchemaValidationError errs d) \<Rightarrow>
          Inr \<lparr>valid = False,
               errors = map (\<lambda>err. (if instancePath err \<noteq> [] then instancePath err else ''root'') @
                                 '': '' @ template_message (message err))
                          errs,
               data = None\<rparr>
      | Inl e \<Rightarrow> Inl e)"

section \<open>Notions the properties are stated with\<close>


definition requiredMessage :: "string \<Rightarrow> string" where
  "requiredMessage f = ''Required field '' @ squote f @ '' is missing from response''"


section \<open>Example documents\<close>

text \<open>
  An OpenAPI document in the shape of the Petstore's, which the repository's contract
  tests load: the definitions \<^verbatim>\<open>Tag\<close> (with \<^verbatim>\<open>name\<close> required) and \<^verbatim>\<open>Pet\<close>, and
  the path \<^verbatim>\<open>/pet\<close> with its \<^verbatim>\<open>post\<close> operation.
\<close>

definition tagSchema :: Schema where
  "tagSchema =
     Schema None (Some ''object'') (Some [''name''])
       (Some [(''id'', Schema None (Some ''integer'') None None None None),
              (''name'', Schema None (Some ''string'') None None None None)])
       None None"

definition categoryField :: Schema where
  "categoryField = Schema (Some ''#/definitions/Tag'') None None None None None"

definition photoUrlsField :: Schema where
  "photoUrlsField =
     Schema None (Some ''array'') None None None
       (Some (Schema None (Some ''string'') None None None None))"

definition tagsField :: Schema where
  "tagsField =
     Schema None (Some ''array'') None None None
       (Some (Schema (Some ''#/definitions/Tag'') None None None None None))"

definition statusField :: Schema where
  "statusField =
     Schema None (Some ''string'') None None
       (Some [JStr ''available'', JStr ''pending'', JStr ''sold'']) None"

definition petProperties :: "(string \<times> Schema) list" where
  "petProperties =
     [(''id'', Schema None (Some ''integer'') None None None None),
      (''category'', categoryField),
      (''name'', Schema None (Some ''string'') None None None None),
      (''photoUrls'', photoUrlsField),
      (''tags'', tagsField),
      (''status'', statusField)]"

definition petSchema :: Schema where
  "petSchema =
     Schema None (Some ''object'') (Some [''name'', ''photoUrls'']) (Some petProperties) None None"

definition petstore :: OpenAPISpec where
  "petstore =
     \<lparr>swagger = Some ''2.0'', openapi = None,
      info = \<lparr>title = ''Swagger Petstore'', version = ''1.0.0''\<rparr>,
      paths = [''/pet'' \<mapsto> [''post'' \<mapsto> \<lparr>responses = Map.empty\<rparr>]],
      definitions = Some [''Tag'' \<mapsto> tagSchema, ''Pet'' \<mapsto> petSchema]\<rparr>"

text \<open>
  The printing of a number that is not a safe integer plays no role in the examples; it
  is fixed to the empty string there.
\<close>

definition no_nts :: "rat \<Rightarrow> string" where
  "no_nts q = []"

text \<open>
  A stand-in for an Ajv instance: it compiles every schema to a function that demands
  an object with an integer \<^verbatim>\<open>id\<close>, and reports as Ajv does.
\<close>

definition integer_id_ajv :: ajv where
  "integer_id_ajv schema_doc =
     Inr (\<lambda>payload.
       (case lookup payload ''id'' of
          Inr (Some (JNum q)) \<Rightarrow> if Number_isInteger q then (True, None)
             else (False, Some [\<lparr>instancePath = ''/id'', message = Some ''must be integer'',
                                 params = JObj [(''type'', JStr ''integer'')]\<rparr>])
        | Inr (Some v) \<Rightarrow>
            (False, Some [\<lparr>instancePath = ''/id'', message = Some ''must be integer'',
                           params = JObj [(''type'', JStr ''integer'')]\<rparr>])
        | Inr None \<Rightarrow> (True, None)
        | Inl e \<Rightarrow>
            (False, Some [\<lparr>instancePath = [], message = Some ''must be object'',
                           params = JObj [(''type'', JStr ''object'')]\<rparr>])))"

section \<open>Properties\<close>

declare validateResponseAgainstSchema.simps [simp del]
declare validateFieldType.simps [simp del]

lemmas eval_simps =
  petstore_def petSchema_def petProperties_def tagSchema_def categoryField_def photoUrlsField_def
  tagsField_def statusField_def no_nts_def
  validateResponseAgainstSchema.simps validateFieldType.simps
  getSchema_def js_in_def truthy_def str_value_def refSchemaName_def typeof_def getJsonType_def
  Array_isArray_def squote_def Number_isInteger_def show_nat.simps digit_def
  quote_def escape_char_def numberToString_def array_includes_def array_join_def joinElement_def

subsection \<open>Auxiliary lemmas\<close>

lemma lookup_object: "typeof v = ''object'' \<Longrightarrow> v \<noteq> JNull \<Longrightarrow> \<exists>r. lookup v k = Inr r"
  by (cases v) (auto simp: typeof_def split: option.splits)

lemma lookup_Inr_object: "lookup v k = Inr r \<Longrightarrow> typeof v = ''object'' \<and> v \<noteq> JNull"
  by (cases v) (auto simp: typeof_def)

lemma requiredLoop_object:
  "typeof response = ''object'' \<Longrightarrow> response \<noteq> JNull \<Longrightarrow>
   requiredLoop strict response req (es, ws) =
     Inr (es @ (if strict then map requiredMessage (filter (\<lambda>f. lookup response f = Inr None) req) else []),
          ws @ (if strict then [] else map requiredMessage (filter (\<lambda>f. lookup response f = Inr None) req)))"
proof (induction req arbitrary: es ws)
  case Nil
  then show ?case by simp
next
  case (Cons f req)
  from Cons.prems obtain r where r: "lookup response f = Inr r"
    using lookup_object by blast
  show ?case
    using Cons.IH [OF Cons.prems] r
    by (cases r; cases strict) (simp_all add: js_in_def requiredMessage_def)
qed

lemma propertiesLoop_Inr:
  "propertiesLoop nts spec response props (es, ws) = Inr (es', ws') \<Longrightarrow>
   \<exists>de dw. es' = es @ de \<and> ws' = ws @ dw \<and>
     (\<forall>es2 ws2. propertiesLoop nts spec response props (es2, ws2) = Inr (es2 @ de, ws2 @ dw))"
proof (induction props arbitrary: es ws)
  case Nil
  then show ?case by simp
next
  case (Cons p props)
  obtain fieldName fieldSchema where p: "p = (fieldName, fieldSchema)"
    by (cases p)
  from Cons.prems p obtain lr where lr: "lookup response fieldName = Inr lr"
    by (auto split: sum.splits)
  show ?case
  proof (cases lr)
    case None
    with Cons.prems p lr have "propertiesLoop nts spec response props (es, ws) = Inr (es', ws')"
      by simp
    from Cons.IH [OF this] obtain de dw where
      "es' = es @ de" "ws' = ws @ dw"
      "\<forall>es2 ws2. propertiesLoop nts spec response props (es2, ws2) = Inr (es2 @ de, ws2 @ dw)"
      by blast
    with p lr None show ?thesis by simp
  next
    case (Some fieldValue)
    with Cons.prems p lr obtain rv where
      rv: "validateFieldType nts spec fieldName fieldValue fieldSchema = Inr rv"
      by (auto split: sum.splits)
    with Cons.prems p lr Some
    have "propertiesLoop nts spec response props (es @ errors rv, ws @ warnings rv) = Inr (es', ws')"
      by simp
    from Cons.IH [OF this] obtain de dw where d:
      "es' = (es @ errors rv) @ de" "ws' = (ws @ warnings rv) @ dw"
      "\<forall>es2 ws2. propertiesLoop nts spec response props (es2, ws2) = Inr (es2 @ de, ws2 @ dw)"
      by blast
    have "\<forall>es2 ws2. propertiesLoop nts spec response (p # props) (es2, ws2) =
            Inr (es2 @ (errors rv @ de), ws2 @ (warnings rv @ dw))"
      using p lr Some rv d(3) by simp
    with d(1,2) show ?thesis
      by (metis append.assoc)
  qed
qed



lemma itemsLoop_ref:
  assumes "truthy (ref its)"
    and "list_all2 (\<lambda>item r. validateResponseAgainstSchema nts spec item
                      (refSchemaName (str_value (ref its))) \<lparr>strictRequired = None\<rparr> = Inr r) elems rs"
  shows "itemsLoop nts spec name its index elems errs =
           Inr (errs @ concat (map (\<lambda>(i, r). map (\<lambda>err. name @ ''['' @ show_nat i @ '']: '' @ err) (errors r))
                                (enumerate index rs)))"
  using assms(2)
proof (induction elems rs arbitrary: index errs rule: list_all2_induct)
  case Nil
  then show ?case by simp
next
  case (Cons item r elems rs)
  then show ?case using assms(1) by simp
qed

lemma itemsLoop_type:
  assumes "\<not> truthy (ref its)" and "truthy (type its)"
  shows "itemsLoop nts spec name its index elems errs =
           Inr (errs @ concat (map (\<lambda>(i, item).
                   if getJsonType item \<noteq> str_value (type its)
                   then [name @ ''['' @ show_nat i @ ''] has type '' @ squote (getJsonType item) @
                         '' but schema expects '' @ squote (str_value (type its))]
                   else [])
                 (enumerate index elems)))"
  using assms by (induction elems arbitrary: index errs) (simp_all add: Let_def)

lemma itemsLoop_untyped:
  assumes "\<not> truthy (ref its)" and "\<not> truthy (type its)"
  shows "itemsLoop nts spec name its index elems errs = Inr errs"
  using assms by (induction elems arbitrary: index errs) simp_all

lemma itemsLoop_ref_results:
  assumes "truthy (ref its)"
    and "itemsLoop nts spec name its index elems errs = Inr errs'"
  shows "\<exists>rs. list_all2 (\<lambda>item r. validateResponseAgainstSchema nts spec item
                      (refSchemaName (str_value (ref its))) \<lparr>strictRequired = None\<rparr> = Inr r) elems rs"
  using assms(2)
proof (induction elems arbitrary: index errs)
  case Nil
  then show ?case by simp
next
  case (Cons item elems)
  from Cons.prems assms(1) obtain r where
    r: "validateResponseAgainstSchema nts spec item
          (refSchemaName (str_value (ref its))) \<lparr>strictRequired = None\<rparr> = Inr r"
    and rest: "itemsLoop nts spec name its (index + 1) elems
                 (errs @ map (\<lambda>err. name @ ''['' @ show_nat index @ '']: '' @ err) (errors r)) = Inr errs'"
    by (auto split: sum.splits)
  from Cons.IH [OF rest] obtain rs where
    "list_all2 (\<lambda>item r. validateResponseAgainstSchema nts spec item
                      (refSchemaName (str_value (ref its))) \<lparr>strictRequired = None\<rparr> = Inr r) elems rs"
    by blast
  with r have "list_all2 (\<lambda>item r. validateResponseAgainstSchema nts spec item
                      (refSchemaName (str_value (ref its))) \<lparr>strictRequired = None\<rparr> = Inr r)
                 (item # elems) (r # rs)"
    by simp
  then show ?case by blast
qed

lemma itemsLoop_extends:
  "itemsLoop nts spec name its index elems errs = Inr errs' \<Longrightarrow> \<exists>d. errs' = errs @ d"
proof (cases "truthy (ref its)")
  case True
  assume a: "itemsLoop nts spec name its index elems errs = Inr errs'"
  from itemsLoop_ref_results [OF True a] obtain rs where
    "list_all2 (\<lambda>item r. validateResponseAgainstSchema nts spec item
                      (refSchemaName (str_value (ref its))) \<lparr>strictRequired = None\<rparr> = Inr r) elems rs"
    by blast
  from itemsLoop_ref [OF True this, of name index errs] a show ?thesis by simp
next
  case False
  assume a: "itemsLoop nts spec name its index elems errs = Inr errs'"
  show ?thesis
  proof (cases "truthy (type its)")
    case True
    from itemsLoop_type [OF False True, of nts spec name index elems errs] a show ?thesis by simp
  next
    case f: False
    from itemsLoop_untyped [OF False f, of nts spec name index elems errs] a show ?thesis by simp
  qed
qed

lemma array_never_included: "array_includes allowed (JArr elems) = False"
  by (induction allowed) (simp_all add: array_includes_def)

lemma array_join_strings: "array_join nts sep (map JStr names) = join sep names"
  by (simp add: array_join_def joinElement_def comp_def)

lemma propertiesLoop_member:
  assumes "propertiesLoop nts spec response props (es, ws) = Inr (es', ws')"
    and "(fieldName, fieldSchema) \<in> set props"
    and "lookup response fieldName = Inr (Some v)"
  shows "\<exists>rv. validateFieldType nts spec fieldName v fieldSchema = Inr rv \<and> set (errors rv) \<subseteq> set es'"
  using assms(1,2)
proof (induction props arbitrary: es ws)
  case Nil
  then show ?case by simp
next
  case (Cons p props)
  obtain k ks where p: "p = (k, ks)"
    by (cases p)
  from Cons.prems(1) p obtain lr where lr: "lookup response k = Inr lr"
    by (auto split: sum.splits)
  show ?case
  proof (cases lr)
    case None
    with Cons.prems p lr assms(3) have
      "propertiesLoop nts spec response props (es, ws) = Inr (es', ws')"
      "(fieldName, fieldSchema) \<in> set props"
      by auto
    then show ?thesis by (rule Cons.IH)
  next
    case (Some kv)
    with Cons.prems(1) p lr obtain rk where
      rk: "validateFieldType nts spec k kv ks = Inr rk"
      by (auto split: sum.splits)
    with Cons.prems(1) p lr Some
    have rest: "propertiesLoop nts spec response props (es @ errors rk, ws @ warnings rk) = Inr (es', ws')"
      by simp
    show ?thesis
    proof (cases "(fieldName, fieldSchema) = p")
      case True
      with p lr Some assms(3) rk have "validateFieldType nts spec fieldName v fieldSchema = Inr rk"
        by simp
      moreover from propertiesLoop_Inr [OF rest] have "set (errors rk) \<subseteq> set es'"
        by auto
      ultimately show ?thesis by blast
    next
      case False
      with Cons.prems(2) have "(fieldName, fieldSchema) \<in> set props"
        by simp
      with rest show ?thesis by (rule Cons.IH)
    qed
  qed
qed

lemma itemsLoop_ref_member:
  assumes "truthy (ref its)"
    and "itemsLoop nts spec name its index elems errs = Inr errs'"
    and "i < length elems"
  shows "\<exists>ri. validateResponseAgainstSchema nts spec (elems ! i)
                (refSchemaName (str_value (ref its))) \<lparr>strictRequired = None\<rparr> = Inr ri
            \<and> (\<forall>e \<in> set (errors ri). name @ ''['' @ show_nat (index + i) @ '']: '' @ e \<in> set errs')"
  using assms(2,3)
proof (induction elems arbitrary: index errs i)
  case Nil
  then show ?case by simp
next
  case (Cons item elems)
  from Cons.prems(1) assms(1) obtain r where
    r: "validateResponseAgainstSchema nts spec item
          (refSchemaName (str_value (ref its))) \<lparr>strictRequired = None\<rparr> = Inr r"
    and rest: "itemsLoop nts spec name its (index + 1) elems
                 (errs @ map (\<lambda>err. name @ ''['' @ show_nat index @ '']: '' @ err) (errors r)) = Inr errs'"
    by (auto split: sum.splits)
  show ?case
  proof (cases i)
    case 0
    from itemsLoop_extends [OF rest] have
      "set (map (\<lambda>err. name @ ''['' @ show_nat index @ '']: '' @ err) (errors r)) \<subseteq> set errs'"
      by auto
    with 0 r show ?thesis by auto
  next
    case (Suc j)
    with Cons.prems(2) have "j < length elems" by simp
    from Cons.IH [OF rest this] Suc show ?thesis by simp
  qed
qed

lemma validateResponseAgainstSchema_decompose:
  assumes "getSchema spec schemaName = Inr (Some schema)"
    and "required schema = Some req"
    and "typeof response = ''object''" and "response \<noteq> JNull"
    and "validateResponseAgainstSchema nts spec response schemaName options = Inr r"
  shows "\<exists>fieldErrors fieldWarnings.
           (case properties schema of
              None \<Rightarrow> Inr ([], [])
            | Some props \<Rightarrow> propertiesLoop nts spec response props ([], [])) = Inr (fieldErrors, fieldWarnings)
         \<and> errors r = (if strictRequired options \<noteq> Some False
                        then map requiredMessage (filter (\<lambda>g. lookup response g = Inr None) req)
                        else []) @ fieldErrors
         \<and> warnings r = (if strictRequired options \<noteq> Some False then []
                          else map requiredMessage (filter (\<lambda>g. lookup response g = Inr None) req))
                         @ fieldWarnings
         \<and> valid r = (errors r = [])"
proof -
  define strict where "strict = (strictRequired options \<noteq> Some False)"
  define missing where "missing = map requiredMessage (filter (\<lambda>g. lookup response g = Inr None) req)"
  have req: "requiredLoop strict response req ([], []) =
               Inr (if strict then missing else [], if strict then [] else missing)"
    using requiredLoop_object [OF assms(3,4), of strict req "[]" "[]"] by (simp add: missing_def)
  show ?thesis
  proof (cases "properties schema")
    case None
    with assms(1,2,5) req have "r = \<lparr>valid = ((if strict then missing else []) = []),
        errors = (if strict then missing else []), warnings = (if strict then [] else missing)\<rparr>"
      by (auto simp: validateResponseAgainstSchema.simps strict_def)
    with None show ?thesis
      by (auto simp: strict_def missing_def)
  next
    case (Some props)
    with assms(1,2,5) req obtain es' ws' where
      pl: "propertiesLoop nts spec response props
             (if strict then missing else [], if strict then [] else missing) = Inr (es', ws')"
      and r: "r = \<lparr>valid = (es' = []), errors = es', warnings = ws'\<rparr>"
      by (auto simp: validateResponseAgainstSchema.simps strict_def split: sum.splits)
    from propertiesLoop_Inr [OF pl] obtain de dw where d:
      "es' = (if strict then missing else []) @ de" "ws' = (if strict then [] else missing) @ dw"
      "propertiesLoop nts spec response props ([], []) = Inr (de, dw)"
      by (metis append_Nil)
    with Some r show ?thesis
      by (auto simp: strict_def missing_def)
  qed
qed

lemma default_call_reports_in_errors:
  assumes "getSchema spec refName = Inr (Some refSchema)"
    and "required refSchema = Some req" and "f \<in> set req"
    and "lookup nested f = Inr None"
    and "validateResponseAgainstSchema nts spec nested refName \<lparr>strictRequired = None\<rparr> = Inr rn"
  shows "requiredMessage f \<in> set (errors rn)"
proof -
  have obj: "typeof nested = ''object''" "nested \<noteq> JNull"
    using assms(4) lookup_Inr_object by blast+
  have "f \<in> set (filter (\<lambda>g. lookup nested g = Inr None) req)"
    using assms(3,4) by simp
  then have "requiredMessage f \<in> set (map requiredMessage (filter (\<lambda>g. lookup nested g = Inr None) req))"
    unfolding set_map by (rule imageI)
  moreover from validateResponseAgainstSchema_decompose [OF assms(1,2) obj assms(5)]
  obtain fieldErrors where
    "errors rn = map requiredMessage (filter (\<lambda>g. lookup nested g = Inr None) req) @ fieldErrors"
    by auto
  ultimately show ?thesis
    by (simp only: set_append Un_iff simp_thms)
qed

lemma validateResponseAgainstSchema_properties:
  assumes "validateResponseAgainstSchema nts spec response schemaName options = Inr r"
    and "getSchema spec schemaName = Inr (Some schema)"
    and "properties schema = Some props"
  shows "\<exists>es ws. propertiesLoop nts spec response props (es, ws) = Inr (errors r, warnings r)"
  using assms
  by (auto simp: validateResponseAgainstSchema.simps Let_def split: sum.splits option.splits prod.splits)
     blast+






subsection \<open>The verdict and the error list\<close>

text \<open>
  Claim C1. Every result a result-returning operation of the contract validator gives
  (\<^verbatim>\<open>validateEndpointExists\<close>, \<^verbatim>\<open>validateSchemaExists\<close>,
  \<^verbatim>\<open>validateResponseAgainstSchema\<close>) has \<^verbatim>\<open>valid\<close> true exactly when \<^verbatim>\<open>errors\<close>
  is empty: the verdict is a function of the error list alone, whatever the warnings are.
\<close>

theorem valid_iff_no_errors:
  "valid (validateEndpointExists spec path m) = (errors (validateEndpointExists spec path m) = [])
   \<and> valid (validateSchemaExists spec schemaName) = (errors (validateSchemaExists spec schemaName) = [])
   \<and> (\<forall>r. validateResponseAgainstSchema nts spec response schemaName options = Inr r
          \<longrightarrow> valid r = (errors r = []))"
proof (intro conjI allI impI)
  show "valid (validateEndpointExists spec path m) = (errors (validateEndpointExists spec path m) = [])"
    by (simp add: validateEndpointExists_def Let_def split: option.splits)
  show "valid (validateSchemaExists spec schemaName) = (errors (validateSchemaExists spec schemaName) = [])"
    by (simp add: validateSchemaExists_def split: option.splits)
next
  fix r
  assume "validateResponseAgainstSchema nts spec response schemaName options = Inr r"
  then show "valid r = (errors r = [])"
    by (auto simp: validateResponseAgainstSchema.simps Let_def split: sum.splits option.splits prod.splits)
qed

text \<open>
  At the schema \<^verbatim>\<open>Tag\<close> and the empty object, with \<^verbatim>\<open>strictRequired: false\<close>: one
  warning, no error, and the result is valid.
\<close>

theorem valid_iff_no_errors_witness:
  "validateResponseAgainstSchema no_nts petstore (JObj []) ''Tag'' \<lparr>strictRequired = Some False\<rparr>
     = Inr \<lparr>valid = True, errors = [], warnings = [''Required field 'name' is missing from response'']\<rparr>
   \<and> valid \<lparr>valid = True, errors = [], warnings = [''Required field 'name' is missing from response'']\<rparr>
     = (errors \<lparr>valid = True, errors = [], warnings = [''Required field 'name' is missing from response'']\<rparr> = [])"
proof -
  have e: "validateResponseAgainstSchema no_nts petstore (JObj []) ''Tag'' \<lparr>strictRequired = Some False\<rparr>
     = Inr \<lparr>valid = True, errors = [], warnings = [''Required field 'name' is missing from response'']\<rparr>"
    by (simp add: eval_simps)
  from valid_iff_no_errors [where nts = no_nts and spec = petstore and response = "JObj []"
      and schemaName = "''Tag''" and options = "\<lparr>strictRequired = Some False\<rparr>"] e
  show ?thesis by blast
qed

subsection \<open>The two ways of \<^verbatim>\<open>schemaValidator.ts\<close>\<close>

text \<open>
  Claim C2. For every schema and value, \<^verbatim>\<open>SchemaValidator.validate\<close> gives a result
  whose \<^verbatim>\<open>valid\<close> is true if and only if \<^verbatim>\<open>SchemaValidator.validateSchema\<close> does not
  raise on them.
\<close>

theorem validate_valid_iff_validateSchema_returns:
  "(\<exists>r. SchemaValidator_validate ajv schema_doc payload = Inr r \<and> valid r)
   = (\<exists>d. SchemaValidator_validateSchema ajv schema_doc payload = Inr d)"
  by (auto simp: SchemaValidator_validate_def split: sum.splits js_error.splits)

subsection \<open>Runtime types\<close>

text \<open>
  Claim C6. The runtime JSON type of \<^verbatim>\<open>null\<close> is \<^verbatim>\<open>null\<close>, of an array
  \<^verbatim>\<open>array\<close> whatever its elements, of a number without a fractional part
  \<^verbatim>\<open>integer\<close> and of any other number \<^verbatim>\<open>number\<close>. For a field with a declared
  type whose check is reached (the field's own \<^verbatim>\<open>$ref\<close> branch has not returned first), a
  value of another type gives the error
  \<^verbatim>\<open>Field '<name>' has type '<actual>' but schema expects '<expected>' (value: <json>)\<close>,
  first in the list, and the result is invalid.
\<close>

theorem getJsonType_mismatch:
  "getJsonType JNull = ''null''
   \<and> getJsonType (JArr vs) = ''array''
   \<and> getJsonType (JNum q) = (if q \<in> \<int> then ''integer'' else ''number'')
   \<and> (truthy (type fieldSchema)
        \<and> \<not> (truthy (ref fieldSchema) \<and> typeof v = ''object'' \<and> v \<noteq> JNull)
        \<and> str_value (type fieldSchema) \<noteq> getJsonType v
       \<longrightarrow> (\<exists>rest. validateFieldType nts spec fieldName v fieldSchema =
             Inr \<lparr>valid = False,
                  errors = (''Field '' @ squote fieldName @ '' has type '' @ squote (getJsonType v) @
                            '' but schema expects '' @ squote (str_value (type fieldSchema)) @
                            '' (value: '' @ JSON_stringify nts v @ '')'') # rest,
                  warnings = []\<rparr>))"
proof (intro conjI impI)
  show "getJsonType (JNum q) = (if q \<in> \<int> then ''integer'' else ''number'')"
    by (auto simp: getJsonType_def Array_isArray_def typeof_def Number_isInteger_def Ints_def)
next
  assume a: "truthy (type fieldSchema)
        \<and> \<not> (truthy (ref fieldSchema) \<and> typeof v = ''object'' \<and> v \<noteq> JNull)
        \<and> str_value (type fieldSchema) \<noteq> getJsonType v"
  then show "\<exists>rest. validateFieldType nts spec fieldName v fieldSchema =
             Inr \<lparr>valid = False,
                  errors = (''Field '' @ squote fieldName @ '' has type '' @ squote (getJsonType v) @
                            '' but schema expects '' @ squote (str_value (type fieldSchema)) @
                            '' (value: '' @ JSON_stringify nts v @ '')'') # rest,
                  warnings = []\<rparr>"
    by (cases v) (auto simp: validateFieldType.simps Let_def getJsonType_def Array_isArray_def split: option.splits)
qed (simp_all add: getJsonType_def Array_isArray_def)


theorem getJsonType_mismatch_witness:
  "truthy (type (Schema None (Some ''integer'') None None None None))
   \<and> \<not> (truthy (ref (Schema None (Some ''integer'') None None None None))
          \<and> typeof (JStr ''not-a-number'') = ''object'' \<and> JStr ''not-a-number'' \<noteq> JNull)
   \<and> str_value (type (Schema None (Some ''integer'') None None None None))
        \<noteq> getJsonType (JStr ''not-a-number'')
   \<and> (\<exists>rest. validateFieldType no_nts petstore ''id'' (JStr ''not-a-number'')
                (Schema None (Some ''integer'') None None None None) =
             Inr \<lparr>valid = False,
                  errors = ''Field 'id' has type 'string' but schema expects 'integer' (value: \"not-a-number\")''
                           # rest,
                  warnings = []\<rparr>)"
proof -
  have h: "truthy (type (Schema None (Some ''integer'') None None None None))
   \<and> \<not> (truthy (ref (Schema None (Some ''integer'') None None None None))
          \<and> typeof (JStr ''not-a-number'') = ''object'' \<and> JStr ''not-a-number'' \<noteq> JNull)
   \<and> str_value (type (Schema None (Some ''integer'') None None None None))
        \<noteq> getJsonType (JStr ''not-a-number'')"
    by (simp add: truthy_def str_value_def typeof_def getJsonType_def Array_isArray_def)
  from getJsonType_mismatch [where fieldSchema = "Schema None (Some ''integer'') None None None None"
      and v = "JStr ''not-a-number''" and nts = no_nts and spec = petstore and fieldName = "''id''"] h
  have "\<exists>rest. validateFieldType no_nts petstore ''id'' (JStr ''not-a-number'')
                (Schema None (Some ''integer'') None None None None) =
             Inr \<lparr>valid = False,
                  errors = (''Field '' @ squote ''id'' @ '' has type '' @
                            squote (getJsonType (JStr ''not-a-number'')) @
                            '' but schema expects '' @
                            squote (str_value (type (Schema None (Some ''integer'') None None None None))) @
                            '' (value: '' @ JSON_stringify no_nts (JStr ''not-a-number'') @ '')'') # rest,
                  warnings = []\<rparr>"
    by blast
  then have "\<exists>rest. validateFieldType no_nts petstore ''id'' (JStr ''not-a-number'')
                (Schema None (Some ''integer'') None None None None) =
             Inr \<lparr>valid = False,
                  errors = ''Field 'id' has type 'string' but schema expects 'integer' (value: \"not-a-number\")''
                           # rest,
                  warnings = []\<rparr>"
    by (simp add: squote_def str_value_def typeof_def getJsonType_def Array_isArray_def quote_def
        escape_char_def)
  with h show ?thesis by blast
qed

subsection \<open>Endpoints\<close>




subsection \<open>Failures as data, failures as exceptions\<close>




subsection \<open>Required fields\<close>




subsection \<open>Array items\<close>

text \<open>
  Claim C5. Take a field without a \<^verbatim>\<open>$ref\<close> of its own, of declared type
  \<^verbatim>\<open>array\<close>, whose schema declares \<^verbatim>\<open>items\<close>, and a value that is an array. If
  \<^verbatim>\<open>items.$ref\<close> is present, every element is validated against the referenced
  definition (with the default options), and the errors of the element at \<open>index\<close>, each
  prefixed with \<^verbatim>\<open><name>[<index>]: \<close>, are appended in order; here \<open>rs\<close> are the
  results of these validations. Otherwise, if \<^verbatim>\<open>items.type\<close> is declared, every
  element whose runtime type differs adds
  \<^verbatim>\<open><name>[<index>] has type '<actual>' but schema expects '<expected>'\<close>. Before
  them stands only what the enum check of the field gave (the type check passes on an
  array).
\<close>

theorem array_items:
  assumes "\<not> truthy (ref fieldSchema)"
    and "type fieldSchema = Some ''array''"
    and "items fieldSchema = Some itemsSchema"
  shows "(truthy (ref itemsSchema)
          \<and> list_all2 (\<lambda>item r. validateResponseAgainstSchema nts spec item
                          (refSchemaName (str_value (ref itemsSchema))) \<lparr>strictRequired = None\<rparr> = Inr r)
                elems rs
         \<longrightarrow> (\<exists>res. validateFieldType nts spec fieldName (JArr elems) fieldSchema = Inr res
          \<and> errors res =
              (case enum_values fieldSchema of
                 None \<Rightarrow> []
               | Some allowed \<Rightarrow>
                   [''Field '' @ squote fieldName @ '' has value '' @
                    squote (toString nts (JArr elems)) @
                    '' which is not in allowed enum values: ['' @
                    array_join nts '', '' allowed @ '']'']) @
              concat (map (\<lambda>(index, r).
                             map (\<lambda>err. fieldName @ ''['' @ show_nat index @ '']: '' @ err) (errors r))
                        (enumerate 0 rs))
          \<and> warnings res = [] \<and> valid res = (errors res = [])))
       \<and> (\<not> truthy (ref itemsSchema) \<and> truthy (type itemsSchema)
         \<longrightarrow> (\<exists>res. validateFieldType nts spec fieldName (JArr elems) fieldSchema = Inr res
          \<and> errors res =
              (case enum_values fieldSchema of
                 None \<Rightarrow> []
               | Some allowed \<Rightarrow>
                   [''Field '' @ squote fieldName @ '' has value '' @
                    squote (toString nts (JArr elems)) @
                    '' which is not in allowed enum values: ['' @
                    array_join nts '', '' allowed @ '']'']) @
              concat (map (\<lambda>(index, item).
                             if getJsonType item \<noteq> str_value (type itemsSchema)
                             then [fieldName @ ''['' @ show_nat index @ ''] has type '' @
                                   squote (getJsonType item) @ '' but schema expects '' @
                                   squote (str_value (type itemsSchema))]
                             else [])
                        (enumerate 0 elems))
          \<and> warnings res = [] \<and> valid res = (errors res = [])))"
proof -
  have t: "truthy (type fieldSchema)" "str_value (type fieldSchema) = ''array''"
    using assms(2) by (simp_all add: truthy_def str_value_def)
  have g: "getJsonType (JArr elems) = ''array''"
    by (simp add: getJsonType_def Array_isArray_def)
  show ?thesis
  proof (intro conjI impI)
    assume a: "truthy (ref itemsSchema)
          \<and> list_all2 (\<lambda>item r. validateResponseAgainstSchema nts spec item
                          (refSchemaName (str_value (ref itemsSchema))) \<lparr>strictRequired = None\<rparr> = Inr r)
                elems rs"
    show "(\<exists>res. validateFieldType nts spec fieldName (JArr elems) fieldSchema = Inr res
          \<and> errors res =
              (case enum_values fieldSchema of
                 None \<Rightarrow> []
               | Some allowed \<Rightarrow>
                   [''Field '' @ squote fieldName @ '' has value '' @
                    squote (toString nts (JArr elems)) @
                    '' which is not in allowed enum values: ['' @
                    array_join nts '', '' allowed @ '']'']) @
              concat (map (\<lambda>(index, r).
                             map (\<lambda>err. fieldName @ ''['' @ show_nat index @ '']: '' @ err) (errors r))
                        (enumerate 0 rs))
          \<and> warnings res = [] \<and> valid res = (errors res = []))"
      using assms t g a itemsLoop_ref [of itemsSchema nts spec elems rs fieldName 0]
      by (simp add: validateFieldType.simps [of nts spec fieldName "JArr elems" fieldSchema]
            Let_def array_never_included split: option.splits)
  next
    assume a: "\<not> truthy (ref itemsSchema) \<and> truthy (type itemsSchema)"
    show "(\<exists>res. validateFieldType nts spec fieldName (JArr elems) fieldSchema = Inr res
          \<and> errors res =
              (case enum_values fieldSchema of
                 None \<Rightarrow> []
               | Some allowed \<Rightarrow>
                   [''Field '' @ squote fieldName @ '' has value '' @
                    squote (toString nts (JArr elems)) @
                    '' which is not in allowed enum values: ['' @
                    array_join nts '', '' allowed @ '']'']) @
              concat (map (\<lambda>(index, item).
                             if getJsonType item \<noteq> str_value (type itemsSchema)
                             then [fieldName @ ''['' @ show_nat index @ ''] has type '' @
                                   squote (getJsonType item) @ '' but schema expects '' @
                                   squote (str_value (type itemsSchema))]
                             else [])
                        (enumerate 0 elems))
          \<and> warnings res = [] \<and> valid res = (errors res = []))"
      using assms t g a itemsLoop_type [of itemsSchema nts spec fieldName 0 elems]
      by (simp add: validateFieldType.simps [of nts spec fieldName "JArr elems" fieldSchema]
            Let_def array_never_included split: option.splits)
  qed
qed

theorem array_items_witness:
  "\<not> truthy (ref tagsField) \<and> type tagsField = Some ''array''
   \<and> items tagsField = Some (Schema (Some ''#/definitions/Tag'') None None None None None)
   \<and> validateResponseAgainstSchema no_nts petstore (JObj [(''id'', JNum 1)]) ''Tag''
         \<lparr>strictRequired = None\<rparr> =
       Inr \<lparr>valid = False, errors = [''Required field 'name' is missing from response''],
            warnings = []\<rparr>
   \<and> validateFieldType no_nts petstore ''tags'' (JArr [JObj [(''id'', JNum 1)]]) tagsField =
       Inr \<lparr>valid = False, errors = [''tags[0]: Required field 'name' is missing from response''],
            warnings = []\<rparr>
   \<and> \<not> truthy (ref photoUrlsField) \<and> type photoUrlsField = Some ''array''
   \<and> items photoUrlsField = Some (Schema None (Some ''string'') None None None None)
   \<and> validateFieldType no_nts petstore ''photoUrls'' (JArr [JStr ''a.jpg'', JNum 5]) photoUrlsField =
       Inr \<lparr>valid = False,
            errors = [''photoUrls[1] has type 'integer' but schema expects '' @ squote ''string''],
            warnings = []\<rparr>"
proof -
  let ?ref = "Schema (Some ''#/definitions/Tag'') None None None None None"
  let ?str = "Schema None (Some ''string'') None None None None"
  let ?r0 = "\<lparr>valid = False, errors = [''Required field 'name' is missing from response''],
             warnings = []\<rparr>"
  have a: "\<not> truthy (ref tagsField)" "type tagsField = Some ''array''" "items tagsField = Some ?ref"
    by (simp_all add: tagsField_def truthy_def str_value_def)
  have r0: "validateResponseAgainstSchema no_nts petstore (JObj [(''id'', JNum 1)]) ''Tag''
         \<lparr>strictRequired = None\<rparr> = Inr ?r0"
    by (simp add: eval_simps)
  have h: "truthy (ref ?ref)
          \<and> list_all2 (\<lambda>item r. validateResponseAgainstSchema no_nts petstore item
                          (refSchemaName (str_value (ref ?ref))) \<lparr>strictRequired = None\<rparr> = Inr r)
                [JObj [(''id'', JNum 1)]] [?r0]"
    using r0 by (simp add: truthy_def str_value_def refSchemaName_def)
  from array_items [OF a, where nts = no_nts and spec = petstore and fieldName = "''tags''"
      and elems = "[JObj [(''id'', JNum 1)]]" and rs = "[?r0]"] h
  have "\<exists>res. validateFieldType no_nts petstore ''tags'' (JArr [JObj [(''id'', JNum 1)]]) tagsField = Inr res
          \<and> errors res = [''tags[0]: Required field 'name' is missing from response'']
          \<and> warnings res = [] \<and> valid res = (errors res = [])"
    by (simp add: tagsField_def enumerate_eq_zip show_nat.simps digit_def)
  then have 1: "validateFieldType no_nts petstore ''tags'' (JArr [JObj [(''id'', JNum 1)]]) tagsField =
       Inr \<lparr>valid = False, errors = [''tags[0]: Required field 'name' is missing from response''],
            warnings = []\<rparr>"
    by auto
  have b: "\<not> truthy (ref photoUrlsField)" "type photoUrlsField = Some ''array''"
      "items photoUrlsField = Some ?str"
    by (simp_all add: photoUrlsField_def truthy_def str_value_def)
  have h2: "\<not> truthy (ref ?str) \<and> truthy (type ?str)"
    by (simp add: truthy_def str_value_def)
  from array_items [OF b, where nts = no_nts and spec = petstore and fieldName = "''photoUrls''"
      and elems = "[JStr ''a.jpg'', JNum 5]"] h2
  have "\<exists>res. validateFieldType no_nts petstore ''photoUrls'' (JArr [JStr ''a.jpg'', JNum 5]) photoUrlsField
             = Inr res
          \<and> errors res = [''photoUrls[1] has type 'integer' but schema expects '' @ squote ''string'']
          \<and> warnings res = [] \<and> valid res = (errors res = [])"
    by (simp add: photoUrlsField_def enumerate_eq_zip show_nat.simps digit_def getJsonType_def
          Array_isArray_def typeof_def Number_isInteger_def str_value_def squote_def upt_conv_Cons)
  then have 2: "validateFieldType no_nts petstore ''photoUrls'' (JArr [JStr ''a.jpg'', JNum 5]) photoUrlsField =
       Inr \<lparr>valid = False,
            errors = [''photoUrls[1] has type 'integer' but schema expects '' @ squote ''string''],
            warnings = []\<rparr>"
    by auto
  from a r0 1 b 2 show ?thesis by blast
qed

subsection \<open>Enumerations\<close>

text \<open>
  Claim C7. The enum check stands under the \<^verbatim>\<open>type\<close> branch: for a field schema
  without a declared type the outcome is the same whatever \<^verbatim>\<open>enum\<close> it has. When the
  type is declared and the check is reached (the field's own \<^verbatim>\<open>$ref\<close> branch has not
  returned first), the enum check runs whether or not the type check passed: after the
  type error, if there is one, a value outside the enum adds exactly
  \<^verbatim>\<open>Field '<name>' has value '<value>' which is not in allowed enum values: [<enum>]\<close>,
  where \<^verbatim>\<open><enum>\<close> is the allowed values joined by a comma and a space; for an enum
  of strings these are the strings themselves.
\<close>

theorem enum_check:
  "(\<not> truthy t \<longrightarrow>
      validateFieldType nts spec fieldName v (Schema r t rq ps e its) =
      validateFieldType nts spec fieldName v (Schema r t rq ps e' its))
   \<and> (truthy (type fieldSchema)
        \<and> \<not> (truthy (ref fieldSchema) \<and> typeof v = ''object'' \<and> v \<noteq> JNull)
        \<and> enum_values fieldSchema = Some allowed
        \<and> validateFieldType nts spec fieldName v fieldSchema = Inr res
       \<longrightarrow> (\<exists>rest. errors res =
             (if str_value (type fieldSchema) \<noteq> getJsonType v
              then [''Field '' @ squote fieldName @ '' has type '' @ squote (getJsonType v) @
                    '' but schema expects '' @ squote (str_value (type fieldSchema)) @
                    '' (value: '' @ JSON_stringify nts v @ '')'']
              else []) @
             (if array_includes allowed v then []
              else [''Field '' @ squote fieldName @ '' has value '' @ squote (toString nts v) @
                    '' which is not in allowed enum values: ['' @
                    array_join nts '', '' allowed @ '']'']) @
             rest))
   \<and> array_join nts '', '' (map JStr names) = join '', '' names"
proof (intro conjI impI)
  assume "\<not> truthy t"
  then show "validateFieldType nts spec fieldName v (Schema r t rq ps e its) =
      validateFieldType nts spec fieldName v (Schema r t rq ps e' its)"
    by (simp add: validateFieldType.simps)
next
  assume a: "truthy (type fieldSchema)
        \<and> \<not> (truthy (ref fieldSchema) \<and> typeof v = ''object'' \<and> v \<noteq> JNull)
        \<and> enum_values fieldSchema = Some allowed
        \<and> validateFieldType nts spec fieldName v fieldSchema = Inr res"
  define errors2 where "errors2 =
             (if str_value (type fieldSchema) \<noteq> getJsonType v
              then [''Field '' @ squote fieldName @ '' has type '' @ squote (getJsonType v) @
                    '' but schema expects '' @ squote (str_value (type fieldSchema)) @
                    '' (value: '' @ JSON_stringify nts v @ '')'']
              else []) @
             (if array_includes allowed v then []
              else [''Field '' @ squote fieldName @ '' has value '' @ squote (toString nts v) @
                    '' which is not in allowed enum values: ['' @
                    array_join nts '', '' allowed @ '']''])"
  have "\<exists>errors3. errors res = errors3 \<and>
          (errors3 = errors2 \<or>
           (\<exists>itemsSchema elems. itemsLoop nts spec fieldName itemsSchema 0 elems errors2 = Inr errors3))"
    using a unfolding errors2_def
    by (auto simp: validateFieldType.simps [of nts spec fieldName v fieldSchema] Let_def
          split: option.splits json.splits if_splits sum.splits)
  then obtain errors3 where e3: "errors res = errors3"
       "errors3 = errors2 \<or>
           (\<exists>itemsSchema elems. itemsLoop nts spec fieldName itemsSchema 0 elems errors2 = Inr errors3)"
    by blast
  then have "\<exists>rest. errors3 = errors2 @ rest"
    using itemsLoop_extends by fastforce
  with e3(1) show "\<exists>rest. errors res =
             (if str_value (type fieldSchema) \<noteq> getJsonType v
              then [''Field '' @ squote fieldName @ '' has type '' @ squote (getJsonType v) @
                    '' but schema expects '' @ squote (str_value (type fieldSchema)) @
                    '' (value: '' @ JSON_stringify nts v @ '')'']
              else []) @
             (if array_includes allowed v then []
              else [''Field '' @ squote fieldName @ '' has value '' @ squote (toString nts v) @
                    '' which is not in allowed enum values: ['' @
                    array_join nts '', '' allowed @ '']'']) @
             rest"
    unfolding errors2_def by simp
next
  show "array_join nts '', '' (map JStr names) = join '', '' names"
    by (rule array_join_strings)
qed


theorem enum_check_witness:
  "\<not> truthy None
   \<and> validateFieldType no_nts petstore ''status'' (JStr ''invalid-status'')
         (Schema None None None None (Some [JStr ''available'']) None) =
       validateFieldType no_nts petstore ''status'' (JStr ''invalid-status'')
         (Schema None None None None None None)
   \<and> truthy (type statusField)
   \<and> \<not> (truthy (ref statusField) \<and> typeof (JStr ''invalid-status'') = ''object''
          \<and> JStr ''invalid-status'' \<noteq> JNull)
   \<and> enum_values statusField = Some [JStr ''available'', JStr ''pending'', JStr ''sold'']
   \<and> validateFieldType no_nts petstore ''status'' (JStr ''invalid-status'') statusField =
       Inr \<lparr>valid = False,
            errors = [''Field 'status' has value 'invalid-status' which is not in allowed enum values: [available, pending, sold]''],
            warnings = []\<rparr>
   \<and> (\<exists>rest.
         [''Field 'status' has value 'invalid-status' which is not in allowed enum values: [available, pending, sold]'']
         = [''Field 'status' has value 'invalid-status' which is not in allowed enum values: [available, pending, sold]'']
           @ rest)"
proof -
  let ?res = "\<lparr>valid = False,
            errors = [''Field 'status' has value 'invalid-status' which is not in allowed enum values: [available, pending, sold]''],
            warnings = []\<rparr>"
  have n: "\<not> truthy None"
    by (simp add: truthy_def str_value_def)
  have h: "truthy (type statusField)
        \<and> \<not> (truthy (ref statusField) \<and> typeof (JStr ''invalid-status'') = ''object''
               \<and> JStr ''invalid-status'' \<noteq> JNull)
        \<and> enum_values statusField = Some [JStr ''available'', JStr ''pending'', JStr ''sold'']
        \<and> validateFieldType no_nts petstore ''status'' (JStr ''invalid-status'') statusField = Inr ?res"
    by (simp add: eval_simps)
  note inst = enum_check [where nts = no_nts and spec = petstore and fieldName = "''status''"
      and v = "JStr ''invalid-status''" and fieldSchema = statusField
      and allowed = "[JStr ''available'', JStr ''pending'', JStr ''sold'']" and res = ?res
      and t = None and r = None and rq = None and ps = None and its = None
      and e = "Some [JStr ''available'']" and e' = None]
  from inst n have 1: "validateFieldType no_nts petstore ''status'' (JStr ''invalid-status'')
         (Schema None None None None (Some [JStr ''available'']) None) =
       validateFieldType no_nts petstore ''status'' (JStr ''invalid-status'')
         (Schema None None None None None None)"
    by blast
  from inst h have "\<exists>rest.
         [''Field 'status' has value 'invalid-status' which is not in allowed enum values: [available, pending, sold]'']
         = [''Field 'status' has value 'invalid-status' which is not in allowed enum values: [available, pending, sold]'']
           @ rest"
    by simp
  with n 1 h show ?thesis by blast
qed

subsection \<open>The strings of the schema validators\<close>

text \<open>
  Claim C9, as amended. On a failing pair the two \<^verbatim>\<open>SchemaValidator.validate\<close> give
  one string per failure Ajv reports, in order. In \<^verbatim>\<open>validators.ts\<close> the string is
  \<^verbatim>\<open><instancePath> <message>\<close>. In \<^verbatim>\<open>schemaValidator.ts\<close> it is
  \<^verbatim>\<open><instancePath>: <message>\<close>, with \<^verbatim>\<open>root\<close> in place of an empty path.
\<close>

theorem validate_error_format:
  "(ajv schema_doc = Inr run \<and> run payload = (False, Some errs) \<longrightarrow>
      (\<exists>es. validators_SchemaValidator_validate ajv payload schema_doc = Inr \<lparr>valid = False, errors = es\<rparr>
          \<and> length es = length errs
          \<and> (\<forall>i<length errs.
                es ! i = instancePath (errs ! i) @ '' '' @ template_message (message (errs ! i))))
      \<and> (\<exists>es. SchemaValidator_validate ajv schema_doc payload =
                 Inr \<lparr>valid = False, errors = es, data = None\<rparr>
          \<and> length es = length errs
          \<and> (\<forall>i<length errs.
                es ! i = (if instancePath (errs ! i) = [] then ''root'' else instancePath (errs ! i)) @
                         '': '' @ template_message (message (errs ! i)))))
   \<and> template_message (Some m) = m"
  by (auto simp: validators_SchemaValidator_validate_def SchemaValidator_validate_def
        SchemaValidator_validateSchema_def template_message_def)

theorem validate_error_format_witness:
  "integer_id_ajv (JObj []) = Inr (\<lambda>payload.
       (case lookup payload ''id'' of
          Inr (Some (JNum q)) \<Rightarrow> if Number_isInteger q then (True, None)
             else (False, Some [\<lparr>instancePath = ''/id'', message = Some ''must be integer'',
                                 params = JObj [(''type'', JStr ''integer'')]\<rparr>])
        | Inr (Some v) \<Rightarrow>
            (False, Some [\<lparr>instancePath = ''/id'', message = Some ''must be integer'',
                           params = JObj [(''type'', JStr ''integer'')]\<rparr>])
        | Inr None \<Rightarrow> (True, None)
        | Inl e \<Rightarrow>
            (False, Some [\<lparr>instancePath = [], message = Some ''must be object'',
                           params = JObj [(''type'', JStr ''object'')]\<rparr>])))
   \<and> validators_SchemaValidator_validate integer_id_ajv (JObj [(''id'', JStr ''not-a-number'')]) (JObj [])
       = Inr \<lparr>valid = False, errors = [''/id must be integer'']\<rparr>
   \<and> SchemaValidator_validate integer_id_ajv (JObj []) (JObj [(''id'', JStr ''not-a-number'')])
       = Inr \<lparr>valid = False, errors = [''/id: must be integer''], data = None\<rparr>"
proof -
  let ?run = "\<lambda>payload.
       (case lookup payload ''id'' of
          Inr (Some (JNum q)) \<Rightarrow> if Number_isInteger q then (True, None)
             else (False, Some [\<lparr>instancePath = ''/id'', message = Some ''must be integer'',
                                 params = JObj [(''type'', JStr ''integer'')]\<rparr>])
        | Inr (Some v) \<Rightarrow>
            (False, Some [\<lparr>instancePath = ''/id'', message = Some ''must be integer'',
                           params = JObj [(''type'', JStr ''integer'')]\<rparr>])
        | Inr None \<Rightarrow> (True, None)
        | Inl e \<Rightarrow>
            (False, Some [\<lparr>instancePath = [], message = Some ''must be object'',
                           params = JObj [(''type'', JStr ''object'')]\<rparr>]))"
  let ?errs = "[\<lparr>instancePath = ''/id'', message = Some ''must be integer'',
                  params = JObj [(''type'', JStr ''integer'')]\<rparr>]"
  have h: "integer_id_ajv (JObj []) = Inr ?run
           \<and> ?run (JObj [(''id'', JStr ''not-a-number'')]) = (False, Some ?errs)"
    by (simp add: integer_id_ajv_def)
  from validate_error_format [where ajv = integer_id_ajv and schema_doc = "JObj []" and run = ?run
      and payload = "JObj [(''id'', JStr ''not-a-number'')]" and errs = ?errs] h
  have "(\<exists>es. validators_SchemaValidator_validate integer_id_ajv (JObj [(''id'', JStr ''not-a-number'')]) (JObj [])
              = Inr \<lparr>valid = False, errors = es\<rparr>
          \<and> length es = 1 \<and> es ! 0 = ''/id must be integer'')
      \<and> (\<exists>es. SchemaValidator_validate integer_id_ajv (JObj []) (JObj [(''id'', JStr ''not-a-number'')]) =
                 Inr \<lparr>valid = False, errors = es, data = None\<rparr>
          \<and> length es = 1 \<and> es ! 0 = ''/id: must be integer'')"
    by (simp add: template_message_def)
  moreover have "length es = 1 \<and> es ! 0 = x \<longleftrightarrow> es = [x]" for es :: "string list" and x
    by (cases es) auto
  ultimately show ?thesis using h by simp
qed

text \<open>
  The claim as first stated gives the one form \<^verbatim>\<open><instancePath> <message>\<close> to every
  error string of \<^verbatim>\<open>SchemaValidator.validate\<close>. The one of \<^verbatim>\<open>schemaValidator.ts\<close>
  puts a colon after the path, and \<^verbatim>\<open>root\<close> for the empty path.
\<close>

theorem validate_error_format_counterexample:
  "SchemaValidator_validate integer_id_ajv (JObj []) (JObj [(''id'', JStr ''not-a-number'')]) =
     Inr \<lparr>valid = False, errors = [''/id: must be integer''], data = None\<rparr>
   \<and> ''/id: must be integer'' \<noteq> ''/id'' @ '' '' @ ''must be integer''
   \<and> SchemaValidator_validate integer_id_ajv (JObj []) (JStr ''pet'') =
     Inr \<lparr>valid = False, errors = [''root: must be object''], data = None\<rparr>
   \<and> ''root: must be object'' \<noteq> '''' @ '' '' @ ''must be object''"
  by (simp add: integer_id_ajv_def SchemaValidator_validate_def SchemaValidator_validateSchema_def
        template_message_def)

subsection \<open>Options in nested calls\<close>

text \<open>
  Claim C10. The option \<^verbatim>\<open>strictRequired\<close> does not reach the nested calls. The
  recursion through a field's \<^verbatim>\<open>$ref\<close> is the call with the default options, and so
  is the one through \<^verbatim>\<open>items.$ref\<close>. Hence, also when the top-level call is made with
  \<^verbatim>\<open>strictRequired: false\<close> and returns \<open>r\<close>: a field \<open>f\<close> that the referenced
  schema requires and the nested object lacks is reported in \<^verbatim>\<open>errors\<close> of \<open>r\<close>, and
  one that an array element lacks is reported there too, behind the prefix
  \<^verbatim>\<open><name>[<index>]: \<close>.
\<close>

theorem strictRequired_not_propagated:
  assumes "validateResponseAgainstSchema nts spec response schemaName \<lparr>strictRequired = Some False\<rparr> = Inr r"
    and "getSchema spec schemaName = Inr (Some schema)"
    and "properties schema = Some props"
    and "(fieldName, fieldSchema) \<in> set props"
    and "getSchema spec refName = Inr (Some refSchema)"
    and "required refSchema = Some req"
    and "f \<in> set req"
  shows "(truthy (ref fieldSchema) \<and> refSchemaName (str_value (ref fieldSchema)) = refName
          \<and> lookup response fieldName = Inr (Some nested) \<and> lookup nested f = Inr None
         \<longrightarrow> validateFieldType nts spec fieldName nested fieldSchema =
               validateResponseAgainstSchema nts spec nested refName \<lparr>strictRequired = None\<rparr>
             \<and> ''Required field '' @ squote f @ '' is missing from response'' \<in> set (errors r))
       \<and> (\<not> truthy (ref fieldSchema) \<and> type fieldSchema = Some ''array''
          \<and> items fieldSchema = Some itemsSchema
          \<and> truthy (ref itemsSchema) \<and> refSchemaName (str_value (ref itemsSchema)) = refName
          \<and> lookup response fieldName = Inr (Some (JArr elems))
          \<and> i < length elems \<and> lookup (elems ! i) f = Inr None
         \<longrightarrow> fieldName @ ''['' @ show_nat i @ '']: '' @
               ''Required field '' @ squote f @ '' is missing from response'' \<in> set (errors r))"
proof (intro conjI impI)
  assume a: "truthy (ref fieldSchema) \<and> refSchemaName (str_value (ref fieldSchema)) = refName
          \<and> lookup response fieldName = Inr (Some nested) \<and> lookup nested f = Inr None"
  then have obj: "typeof nested = ''object''" "nested \<noteq> JNull"
    using lookup_Inr_object by blast+
  with a show eq: "validateFieldType nts spec fieldName nested fieldSchema =
               validateResponseAgainstSchema nts spec nested refName \<lparr>strictRequired = None\<rparr>"
    by (simp add: validateFieldType.simps)
  from validateResponseAgainstSchema_properties [OF assms(1,2,3)] obtain es ws where
    pl: "propertiesLoop nts spec response props (es, ws) = Inr (errors r, warnings r)"
    by blast
  from propertiesLoop_member [OF pl assms(4)] a obtain rv where
    rv: "validateFieldType nts spec fieldName nested fieldSchema = Inr rv" "set (errors rv) \<subseteq> set (errors r)"
    by blast
  from rv(1) eq have "validateResponseAgainstSchema nts spec nested refName \<lparr>strictRequired = None\<rparr> = Inr rv"
    by simp
  from default_call_reports_in_errors [OF assms(5,6,7) _ this] a rv(2)
  show "''Required field '' @ squote f @ '' is missing from response'' \<in> set (errors r)"
    by (auto simp: requiredMessage_def)
next
  assume a: "\<not> truthy (ref fieldSchema) \<and> type fieldSchema = Some ''array''
          \<and> items fieldSchema = Some itemsSchema
          \<and> truthy (ref itemsSchema) \<and> refSchemaName (str_value (ref itemsSchema)) = refName
          \<and> lookup response fieldName = Inr (Some (JArr elems))
          \<and> i < length elems \<and> lookup (elems ! i) f = Inr None"
  from validateResponseAgainstSchema_properties [OF assms(1,2,3)] obtain es ws where
    pl: "propertiesLoop nts spec response props (es, ws) = Inr (errors r, warnings r)"
    by blast
  from propertiesLoop_member [OF pl assms(4)] a obtain rv where
    rv: "validateFieldType nts spec fieldName (JArr elems) fieldSchema = Inr rv"
        "set (errors rv) \<subseteq> set (errors r)"
    by blast
  from a have t: "truthy (type fieldSchema)" "str_value (type fieldSchema) = ''array''"
    by (simp_all add: truthy_def str_value_def)
  from rv(1) a t obtain errors2 where
    il: "itemsLoop nts spec fieldName itemsSchema 0 elems errors2 = Inr (errors rv)"
    by (auto simp: validateFieldType.simps [of nts spec fieldName "JArr elems" fieldSchema] Let_def
          split: sum.splits)
  from a have ts: "truthy (ref itemsSchema)" "i < length elems" by simp_all
  from itemsLoop_ref_member [OF ts(1) il ts(2)] a obtain ri where
    ri: "validateResponseAgainstSchema nts spec (elems ! i) refName \<lparr>strictRequired = None\<rparr> = Inr ri"
        "\<forall>e \<in> set (errors ri). fieldName @ ''['' @ show_nat i @ '']: '' @ e \<in> set (errors rv)"
    by auto
  from default_call_reports_in_errors [OF assms(5,6,7) _ ri(1)] a
  have "requiredMessage f \<in> set (errors ri)" by simp
  with ri(2) rv(2) show "fieldName @ ''['' @ show_nat i @ '']: '' @
               ''Required field '' @ squote f @ '' is missing from response'' \<in> set (errors r)"
    by (auto simp: requiredMessage_def)
qed


theorem strictRequired_not_propagated_witness:
  "validateResponseAgainstSchema no_nts petstore
      (JObj [(''category'', JObj []), (''tags'', JArr [JObj [(''id'', JNum 1)]])]) ''Pet''
      \<lparr>strictRequired = Some False\<rparr> =
     Inr \<lparr>valid = False,
          errors = [''Required field 'name' is missing from response'',
                    ''tags[0]: Required field 'name' is missing from response''],
          warnings = [''Required field 'name' is missing from response'',
                      ''Required field 'photoUrls' is missing from response'']\<rparr>
   \<and> ''Required field '' @ squote ''name'' @ '' is missing from response''
       \<in> set [''Required field 'name' is missing from response'',
                ''tags[0]: Required field 'name' is missing from response'']
   \<and> ''tags'' @ ''['' @ show_nat 0 @ '']: '' @
       ''Required field '' @ squote ''name'' @ '' is missing from response''
       \<in> set [''Required field 'name' is missing from response'',
                ''tags[0]: Required field 'name' is missing from response'']"
proof -
  let ?response = "JObj [(''category'', JObj []), (''tags'', JArr [JObj [(''id'', JNum 1)]])]"
  let ?r = "\<lparr>valid = False,
          errors = [''Required field 'name' is missing from response'',
                    ''tags[0]: Required field 'name' is missing from response''],
          warnings = [''Required field 'name' is missing from response'',
                      ''Required field 'photoUrls' is missing from response'']\<rparr>"
  have top: "validateResponseAgainstSchema no_nts petstore ?response ''Pet''
      \<lparr>strictRequired = Some False\<rparr> = Inr ?r"
    by (simp add: eval_simps)
  have pet: "getSchema petstore ''Pet'' = Inr (Some petSchema)"
    and props: "properties petSchema = Some petProperties"
    and tag: "getSchema petstore ''Tag'' = Inr (Some tagSchema)"
    and req: "required tagSchema = Some [''name'']"
    and f: "''name'' \<in> set [''name'']"
    by (simp_all add: getSchema_def petstore_def petSchema_def tagSchema_def)
  have c: "(''category'', categoryField) \<in> set petProperties"
    and t: "(''tags'', tagsField) \<in> set petProperties"
    by (simp_all add: petProperties_def)
  have hc: "truthy (ref categoryField) \<and> refSchemaName (str_value (ref categoryField)) = ''Tag''
          \<and> lookup ?response ''category'' = Inr (Some (JObj [])) \<and> lookup (JObj []) ''name'' = Inr None"
    by (simp add: categoryField_def truthy_def str_value_def refSchemaName_def)
  have ht: "\<not> truthy (ref tagsField) \<and> type tagsField = Some ''array''
          \<and> items tagsField = Some (Schema (Some ''#/definitions/Tag'') None None None None None)
          \<and> truthy (ref (Schema (Some ''#/definitions/Tag'') None None None None None))
          \<and> refSchemaName (str_value (ref (Schema (Some ''#/definitions/Tag'') None None None None None)))
              = ''Tag''
          \<and> lookup ?response ''tags'' = Inr (Some (JArr [JObj [(''id'', JNum 1)]]))
          \<and> 0 < length [JObj [(''id'', JNum 1)]] \<and> lookup ([JObj [(''id'', JNum 1)]] ! 0) ''name'' = Inr None"
    by (simp add: tagsField_def truthy_def str_value_def refSchemaName_def)
  from strictRequired_not_propagated [OF top pet props c tag req f, where nested = "JObj []"] hc
  have 1: "''Required field '' @ squote ''name'' @ '' is missing from response'' \<in> set (errors ?r)"
    by blast
  from strictRequired_not_propagated [OF top pet props t tag req f,
      where itemsSchema = "Schema (Some ''#/definitions/Tag'') None None None None None"
        and elems = "[JObj [(''id'', JNum 1)]]" and i = 0] ht
  have 2: "''tags'' @ ''['' @ show_nat 0 @ '']: '' @
       ''Required field '' @ squote ''name'' @ '' is missing from response'' \<in> set (errors ?r)"
    by blast
  from top 1 2 show ?thesis by simp
qed

end
